theory Spec2Isabelle
  imports Complex_Main
begin

section \<open>Formatting utilities\<close>

text \<open>
  The formatting helpers are pure functions on JavaScript numbers and dates. A valid
  \<^verbatim>\<open>Date\<close> is modelled by its time value, an integer number of milliseconds
  (\<^verbatim>\<open>getTime()\<close>).
\<close>

subsection \<open>Decimal rendering of integers\<close>

text \<open>Template literals and \<^verbatim>\<open>toString\<close> render an integer in decimal digits.\<close>

fun show_nat :: "nat \<Rightarrow> string" where
  "show_nat n =
     (if n < 10 then [''0123456789'' ! n]
      else show_nat (n div 10) @ [''0123456789'' ! (n mod 10)])"

declare show_nat.simps [simp del]

definition show_int :: "int \<Rightarrow> string" where
  "show_int i = (if i < 0 then ''-'' @ show_nat (nat (- i)) else show_nat (nat i))"

subsection \<open>timeAgo\<close>

text \<open>
  The second argument of \<^verbatim>\<open>timeAgo\<close> is optional and is either a \<^verbatim>\<open>Date\<close> or a
  number. The source tests it for truthiness (\<^verbatim>\<open>now ? new Date(now) : new Date()\<close>): a
  \<^verbatim>\<open>Date\<close> object is always truthy, the number 0 is not.
\<close>

datatype time_arg = DateObj int | Millis int

fun truthy_time :: "time_arg option \<Rightarrow> bool" where
  "truthy_time None = False"
| "truthy_time (Some (DateObj t)) = True"
| "truthy_time (Some (Millis n)) = (n \<noteq> 0)"

fun time_value :: "time_arg \<Rightarrow> int" where
  "time_value (DateObj t) = t"
| "time_value (Millis n) = n"

text \<open>
  The calendar accessors of the host (\<^verbatim>\<open>getMonth\<close>, \<^verbatim>\<open>getDate\<close>,
  \<^verbatim>\<open>getFullYear\<close>, in the local time zone) are parameters of the model.
\<close>

record calendar =
  getMonth :: "int \<Rightarrow> nat"
  getDate :: "int \<Rightarrow> nat"
  getFullYear :: "int \<Rightarrow> int"

definition months :: "string list" where
  "months = [''Jan'', ''Feb'', ''Mar'', ''Apr'', ''May'', ''Jun'',
             ''Jul'', ''Aug'', ''Sep'', ''Oct'', ''Nov'', ''Dec'']"

text \<open>\<^verbatim>\<open>ref\<close>: the reference time; \<open>clock\<close> is what \<^verbatim>\<open>new Date()\<close> reads.\<close>

definition ref_time :: "int \<Rightarrow> time_arg option \<Rightarrow> int" where
  "ref_time clock now = (if truthy_time now then time_value (the now) else clock)"

text \<open>
  \<^verbatim>\<open>Math.floor(diffMs / 1000)\<close> on an integer \<^verbatim>\<open>diffMs\<close> is the floor division
  \<open>diffMs div 1000\<close>. An index outside \<^verbatim>\<open>months\<close> reads \<^verbatim>\<open>undefined\<close> in the source.
\<close>

definition timeAgo :: "calendar \<Rightarrow> int \<Rightarrow> int \<Rightarrow> time_arg option \<Rightarrow> string" where
  "timeAgo cal clock d now =
     (let ref = ref_time clock now;
          diffMs = ref - d;
          s = max 0 (diffMs div 1000);
          h = s div 3600
      in if h < 24 then
           (if s < 5 then ''now''
            else if s < 60 then show_int s @ ''s''
            else let m = s div 60
                 in if m < 60 then show_int m @ ''m'' else show_int h @ ''h'')
         else
           (let month = (if getMonth cal d < length months
                         then months ! getMonth cal d else ''undefined'');
                day = getDate cal d;
                year = getFullYear cal d;
                currentYear = getFullYear cal ref
            in if year = currentYear then month @ '' '' @ show_nat day
               else month @ '' '' @ show_nat day @ '', '' @ show_int year))"

subsection \<open>JavaScript numbers\<close>

text \<open>
  A JavaScript number is an IEEE 754 double: a finite value, which is a rational, or one
  of the three non-finite ones. The sign of zero is not kept (no function below reads
  it). An arithmetic operation on finite doubles returns the exact result rounded to
  the nearest double, a tie to the even significand, and infinity when the rounded
  result is beyond the largest double.
\<close>

datatype number = Num rat | NaN | PosInfinity | NegInfinity

datatype error = TypeError | RangeError

text \<open>The number of binary digits of a positive integer.\<close>

function bit_length :: "int \<Rightarrow> int" where
  "bit_length n = (if n \<le> 0 then 0 else 1 + bit_length (n div 2))"
  by pat_completeness auto
termination
  by (relation "measure nat") auto

declare bit_length.simps [simp del]

definition pow2 :: "int \<Rightarrow> rat" where
  "pow2 k = (if k \<ge> 0 then 2 ^ nat k else 1 / 2 ^ nat (- k))"

text \<open>For a positive rational \<open>a\<close>, the integer \<open>e\<close> with \<open>2 ^ e \<le> a < 2 ^ (e + 1)\<close>.\<close>

definition ilog2 :: "rat \<Rightarrow> int" where
  "ilog2 a =
     (let (n, d) = quotient_of a;
          k = bit_length n - bit_length d
      in if pow2 k \<le> a then k else k - 1)"

definition round_half_even :: "rat \<Rightarrow> int" where
  "round_half_even t =
     (let f = \<lfloor>t\<rfloor>; r = t - of_int f
      in if r < 1 / 2 then f
         else if r > 1 / 2 then f + 1
         else if even f then f else f + 1)"

text \<open>
  \<open>fl x\<close> is the double nearest to \<open>x\<close>: 53 bits of significand, the smallest
  exponent of a unit in the last place \<open>- 1074\<close> (so subnormal numbers are covered),
  and overflow when the rounded magnitude reaches \<open>2 ^ 1024\<close>, that is when its binary
  exponent is 1024 or more.
\<close>

definition fl :: "rat \<Rightarrow> number" where
  "fl x =
     (if x = 0 then Num 0
      else
        let a = \<bar>x\<bar>;
            q = max (ilog2 a - 52) (- 1074);
            y = of_int (round_half_even (a / pow2 q)) * pow2 q
        in if ilog2 y \<ge> 1024 then (if x < 0 then NegInfinity else PosInfinity)
           else Num (if x < 0 then - y else y))"

fun is_negative :: "number \<Rightarrow> bool" where
  "is_negative (Num a) = (a < 0)"
| "is_negative NegInfinity = True"
| "is_negative x = False"

text \<open>The operators \<^verbatim>\<open>*\<close>, \<^verbatim>\<open>/\<close>, \<^verbatim>\<open>>=\<close> and \<^verbatim>\<open><\<close> on numbers.\<close>

definition js_mul :: "number \<Rightarrow> number \<Rightarrow> number" where
  "js_mul x y =
     (if x = NaN \<or> y = NaN then NaN
      else case (x, y) of
        (Num a, Num b) \<Rightarrow> fl (a * b)
      | _ \<Rightarrow> (if x = Num 0 \<or> y = Num 0 then NaN
               else if is_negative x \<noteq> is_negative y then NegInfinity
               else PosInfinity))"

definition js_div :: "number \<Rightarrow> number \<Rightarrow> number" where
  "js_div x y =
     (if x = NaN \<or> y = NaN then NaN
      else case (x, y) of
        (Num a, Num b) \<Rightarrow>
          (if b = 0
           then (if a = 0 then NaN else if a < 0 then NegInfinity else PosInfinity)
           else fl (a / b))
      | (Num a, _) \<Rightarrow> Num 0
      | (_, Num b) \<Rightarrow> (if is_negative x \<noteq> (b < 0) then NegInfinity else PosInfinity)
      | _ \<Rightarrow> NaN)"

fun js_ge :: "number \<Rightarrow> number \<Rightarrow> bool" where
  "js_ge NaN y = False"
| "js_ge x NaN = False"
| "js_ge PosInfinity y = True"
| "js_ge x NegInfinity = True"
| "js_ge (Num a) (Num b) = (a \<ge> b)"
| "js_ge x y = False"

fun js_lt :: "number \<Rightarrow> number \<Rightarrow> bool" where
  "js_lt NaN y = False"
| "js_lt x NaN = False"
| "js_lt (Num a) (Num b) = (a < b)"
| "js_lt NegInfinity NegInfinity = False"
| "js_lt NegInfinity y = True"
| "js_lt PosInfinity y = False"
| "js_lt x PosInfinity = True"
| "js_lt x y = False"

subsection \<open>prettyCount\<close>

text \<open>
  The model takes the number after the source's
  \<^verbatim>\<open>typeof n === 'string' ? parseFloat(n) : n\<close>.
\<close>

datatype rounding = Round | Floor | Ceil

record count_opts =
  precision :: "nat option"
  rounding :: "rounding option"

text \<open>\<^verbatim>\<open>opts?.precision ?? 0\<close> and \<^verbatim>\<open>opts?.rounding ?? 'round'\<close>.\<close>

definition opt_precision :: "count_opts option \<Rightarrow> nat" where
  "opt_precision opts =
     (case opts of None \<Rightarrow> 0
      | Some os \<Rightarrow> (case precision os of None \<Rightarrow> 0 | Some p \<Rightarrow> p))"

definition opt_rounding :: "count_opts option \<Rightarrow> rounding" where
  "opt_rounding opts =
     (case opts of None \<Rightarrow> Round
      | Some os \<Rightarrow> (case rounding os of None \<Rightarrow> Round | Some r \<Rightarrow> r))"

text \<open>
  \<^verbatim>\<open>Math.round\<close> returns the integer nearest to its argument, a tie towards plus
  infinity; \<^verbatim>\<open>Math.floor\<close> and \<^verbatim>\<open>Math.ceil\<close> are floor and ceiling. The three are
  exact on doubles and leave a non-finite argument as it is.
\<close>

fun rounder :: "rounding \<Rightarrow> number \<Rightarrow> number" where
  "rounder Round (Num x) = Num (of_int \<lfloor>x + 1 / 2\<rfloor>)"
| "rounder Floor (Num x) = Num (of_int \<lfloor>x\<rfloor>)"
| "rounder Ceil (Num x) = Num (of_int \<lceil>x\<rceil>)"
| "rounder m x = x"

definition units :: "string list" where
  "units = ['''', ''K'', ''M'', ''B'', ''T'']"

text \<open>
  The loop \<^verbatim>\<open>while (value >= 1000 && unitIndex < units.length - 1)\<close>, returning the
  final \<^verbatim>\<open>value\<close> and \<^verbatim>\<open>unitIndex\<close>.
\<close>

function scale_loop :: "number \<Rightarrow> nat \<Rightarrow> number \<times> nat" where
  "scale_loop v unitIndex =
     (if js_ge v (Num 1000) \<and> unitIndex < length units - 1
      then scale_loop (js_div v (Num 1000)) (unitIndex + 1)
      else (v, unitIndex))"
  by pat_completeness auto
termination
  by (relation "measure (\<lambda>(v, unitIndex). length units - 1 - unitIndex)") auto

declare scale_loop.simps [simp del]

text \<open>
  Two functions of the host are parameters of the model. \<^verbatim>\<open>Math.pow(10, p)\<close> is
  implementation-approximated in ECMAScript. The method
  \<^verbatim>\<open>toLocaleString(undefined, {minimumFractionDigits: p, maximumFractionDigits: p})\<close>
  renders in the locale of the host, and throws a \<^verbatim>\<open>RangeError\<close> when the host does
  not accept \<open>p\<close> fraction digits.
\<close>

record js_host =
  Math_pow10 :: "nat \<Rightarrow> number"
  toLocaleString :: "number \<Rightarrow> nat \<Rightarrow> error + string"

definition prettyCount :: "js_host \<Rightarrow> number \<Rightarrow> count_opts option \<Rightarrow> error + string" where
  "prettyCount h n opts =
     (case n of
        Num num \<Rightarrow>
          (let abs = Num \<bar>num\<bar>;
               sign = (if num < 0 then ''-'' else '''');
               prec = opt_precision opts;
               (v, unitIndex) = scale_loop abs 0;
               factor = Math_pow10 h prec;
               rounded = js_div (rounder (opt_rounding opts) (js_mul v factor)) factor;
               unitIndex' = (if js_ge rounded (Num 1000) \<and> unitIndex < length units - 1
                             then unitIndex + 1 else unitIndex)
           in case toLocaleString h (if js_ge rounded (Num 1000) then Num 1 else rounded) prec of
                Inl err \<Rightarrow> Inl err
              | Inr out \<Rightarrow> Inr (sign @ out @ units ! unitIndex'))
      | _ \<Rightarrow> Inr ''0'')"

text \<open>
  One host, used for the examples: powers of ten rounded to the nearest double, and the
  en-US rendering that ECMA-402 prescribes, with at most 100 fraction digits: the
  magnitude rounded to \<open>p\<close> decimals (a tie away from zero), the integer digits in
  groups of three, and for \<open>p > 0\<close> a point and exactly \<open>p\<close> fraction digits.
\<close>

definition pad_zeros :: "nat \<Rightarrow> string \<Rightarrow> string" where
  "pad_zeros p s = replicate (p - length s) (CHR ''0'') @ s"

function group3 :: "string \<Rightarrow> string" where
  "group3 s =
     (if length s \<le> 3 then s
      else group3 (take (length s - 3) s) @ '','' @ drop (length s - 3) s)"
  by pat_completeness auto
termination
  by (relation "measure length") auto

declare group3.simps [simp del]

definition en_US_toLocaleString :: "number \<Rightarrow> nat \<Rightarrow> error + string" where
  "en_US_toLocaleString x p =
     (if p > 100 then Inl RangeError
      else case x of
        Num r \<Rightarrow>
          (let scaled = nat \<lfloor>\<bar>r\<bar> * 10 ^ p + 1 / 2\<rfloor>
           in Inr ((if r < 0 then ''-'' else []) @
                   group3 (show_nat (scaled div 10 ^ p)) @
                   (if p = 0 then [] else ''.'' @ pad_zeros p (show_nat (scaled mod 10 ^ p)))))
      | NaN \<Rightarrow> Inr ''NaN''
      | PosInfinity \<Rightarrow> Inr [CHR 0xE2, CHR 0x88, CHR 0x9E]
      | NegInfinity \<Rightarrow> Inr [CHR ''-'', CHR 0xE2, CHR 0x88, CHR 0x9E])"

definition en_US_host :: js_host where
  "en_US_host = \<lparr>Math_pow10 = (\<lambda>p. fl (10 ^ p)), toLocaleString = en_US_toLocaleString\<rparr>"

section \<open>The video player item\<close>

text \<open>
  \<^verbatim>\<open>VideoPlayer\<close> is a React function component. Its \<^verbatim>\<open>useState\<close> cells, its
  \<^verbatim>\<open>useRef\<close> cells, the props of its last render and the part of the host it talks to
  (the video engine handle and the pending \<^verbatim>\<open>setTimeout\<close> handles) are the fields of
  one record; every handler and every effect is a function from that record to the
  updated record. Events run to completion, one at a time.

  The engine calls \<^verbatim>\<open>player.play()\<close> and \<^verbatim>\<open>player.pause()\<close> are taken to return
  normally, so the \<^verbatim>\<open>catch\<close> branches (which only log) are not entered, and
  \<^verbatim>\<open>useVideoPlayer\<close> always yields a handle (\<^verbatim>\<open>!player\<close> is false). The display-only
  cells \<^verbatim>\<open>elapsedTime\<close> and \<^verbatim>\<open>elapsedTimeProgression\<close>, the mute flag and the playback
  rate are not part of the model.
\<close>

record item =
  item_id :: nat
  is_sensitive :: bool
  has_liked :: bool
  has_bookmarked :: bool
  likes :: int
  bookmarks :: int

text \<open>
  A callback prop is modelled by the name of the parent's function it is bound to;
  a prop the parent does not pass is \<^verbatim>\<open>undefined\<close>, here \<open>None\<close>.
\<close>

datatype callback = SetTimelineIsControlled

record props =
  isActive :: bool
  commentsOpen :: bool
  shareOpen :: bool
  otherOpen :: bool
  screenFocused :: bool
  onTimelineControlled :: "callback option"
  onTimelineControlledChanged :: "callback option"

record player =
  cur_props :: props
  isLiked :: bool
  isBookmarked :: bool
  showControls :: bool
  showDurationControl :: bool
  isPlaying :: bool
  playSensitive :: bool
  manualControlRef :: bool
  isMountedRef :: bool
  wasActiveRef :: bool
  controlsTimeoutRef :: "nat option"
  engine_playing :: bool
  currentTime :: rat
  duration :: rat
  timers :: "nat set"
  nextTimer :: nat
  mounted :: bool

text \<open>
  The environment of one player item: the feed item it renders and the module constant
  \<^verbatim>\<open>SCREEN_WIDTH\<close>.
\<close>

record env =
  the_item :: item
  SCREEN_WIDTH :: rat

subsection \<open>Host timers\<close>

text \<open>
  \<^verbatim>\<open>setTimeout\<close> hands out a fresh positive handle and keeps it pending;
  \<^verbatim>\<open>clearTimeout\<close> drops a handle, and is silent on one that is not pending.
\<close>

definition setTimeout :: "player \<Rightarrow> nat \<times> player" where
  "setTimeout s =
     (nextTimer s, s\<lparr>timers := insert (nextTimer s) (timers s), nextTimer := nextTimer s + 1\<rparr>)"

definition clearTimeout :: "nat \<Rightarrow> player \<Rightarrow> player" where
  "clearTimeout h s = s\<lparr>timers := timers s - {h}\<rparr>"

text \<open>Truthiness of a cell that holds a timer handle or \<^verbatim>\<open>null\<close>.\<close>

fun truthy_handle :: "nat option \<Rightarrow> bool" where
  "truthy_handle None = False"
| "truthy_handle (Some h) = (h \<noteq> 0)"

subsection \<open>Effects\<close>

text \<open>The automatic play/pause effect (\<^verbatim>\<open>VideoPlayer.tsx\<close>, lines 92 to 127).\<close>

definition shouldPlay :: "env \<Rightarrow> player \<Rightarrow> bool" where
  "shouldPlay e s =
     (isActive (cur_props s) \<and> screenFocused (cur_props s) \<and>
      \<not> (is_sensitive (the_item e) \<and> \<not> playSensitive s))"

definition play_pause_effect :: "env \<Rightarrow> player \<Rightarrow> player" where
  "play_pause_effect e s =
     (if manualControlRef s then s
      else
        let s1 = (if isActive (cur_props s) \<and> \<not> wasActiveRef s
                  then s\<lparr>currentTime := 0\<rparr> else s);
            s2 = (if shouldPlay e s \<and> isMountedRef s1
                  then s1\<lparr>engine_playing := True, isPlaying := True\<rparr>
                  else if isMountedRef s1
                  then s1\<lparr>engine_playing := False, isPlaying := False\<rparr>
                  else s1)
        in s2\<lparr>wasActiveRef := isActive (cur_props s)\<rparr>)"

text \<open>The reset effect (lines 129 to 134).\<close>

definition reset_effect :: "player \<Rightarrow> player" where
  "reset_effect s =
     (if \<not> isActive (cur_props s)
      then s\<lparr>manualControlRef := False, playSensitive := False\<rparr>
      else s)"

text \<open>The dependency list of the play/pause effect (the engine handle never changes).\<close>

definition play_pause_deps :: "env \<Rightarrow> player \<Rightarrow> bool list" where
  "play_pause_deps e s =
     [isActive (cur_props s), commentsOpen (cur_props s), shareOpen (cur_props s),
      otherOpen (cur_props s), screenFocused (cur_props s),
      is_sensitive (the_item e), playSensitive s]"

text \<open>
  One commit: after a render, React runs, in the order of their declaration, the effects
  whose dependencies differ from those of the previous render \<open>old\<close>.
\<close>

definition commit :: "env \<Rightarrow> player \<Rightarrow> player \<Rightarrow> player" where
  "commit e old s =
     (let s1 = (if play_pause_deps e s \<noteq> play_pause_deps e old
                then play_pause_effect e s else s)
      in if isActive (cur_props s) \<noteq> isActive (cur_props old) then reset_effect s1 else s1)"

text \<open>
  A state cell written by an effect (\<^verbatim>\<open>setPlaySensitive(false)\<close> in the reset effect)
  schedules one more render, whose commit compares with the render before it. No effect
  writes a dependency in that second commit, so the component is stable after it.
\<close>

definition rerender :: "env \<Rightarrow> player \<Rightarrow> player \<Rightarrow> player" where
  "rerender e old s = (let s' = commit e old s in commit e s s')"

subsection \<open>Mounting\<close>

text \<open>Initial values of the state and ref cells; the first commit runs every effect.\<close>

definition initial :: "env \<Rightarrow> props \<Rightarrow> rat \<Rightarrow> player" where
  "initial e p d =
     \<lparr>cur_props = p,
      isLiked = has_liked (the_item e),
      isBookmarked = has_bookmarked (the_item e),
      showControls = False,
      showDurationControl = False,
      isPlaying = False,
      playSensitive = False,
      manualControlRef = False,
      isMountedRef = True,
      wasActiveRef = False,
      controlsTimeoutRef = None,
      engine_playing = False,
      currentTime = 0,
      duration = d,
      timers = {},
      nextTimer = 1,
      mounted = True\<rparr>"

definition mount :: "env \<Rightarrow> props \<Rightarrow> rat \<Rightarrow> player" where
  "mount e p d =
     (let s = initial e p d;
          s' = reset_effect (play_pause_effect e s)
      in commit e s s')"

subsection \<open>Handlers\<close>

text \<open>
  \<^verbatim>\<open>handleLike\<close> and \<^verbatim>\<open>handleBookmark\<close> return the new state and the arguments of
  the call to the parent's \<^verbatim>\<open>onLike\<close> or \<^verbatim>\<open>onBookmark\<close>.
\<close>

definition handleLike :: "env \<Rightarrow> player \<Rightarrow> player \<times> (nat \<times> bool)" where
  "handleLike e s = (s\<lparr>isLiked := \<not> isLiked s\<rparr>, (item_id (the_item e), \<not> isLiked s))"

definition handleBookmark :: "env \<Rightarrow> player \<Rightarrow> player \<times> (nat \<times> bool)" where
  "handleBookmark e s =
     (s\<lparr>isBookmarked := \<not> isBookmarked s\<rparr>, (item_id (the_item e), \<not> isBookmarked s))"

text \<open>The rendered counters (lines 341 and 359).\<close>

definition likes_text :: "env \<Rightarrow> player \<Rightarrow> int" where
  "likes_text e s =
     likes (the_item e) + (if isLiked s \<and> \<not> has_liked (the_item e) then 1 else 0)"

definition bookmarks_text :: "env \<Rightarrow> player \<Rightarrow> int" where
  "bookmarks_text e s =
     bookmarks (the_item e) +
       (if isBookmarked s \<and> \<not> has_bookmarked (the_item e) then 1 else 0)"

definition togglePlayPause :: "player \<Rightarrow> player" where
  "togglePlayPause s =
     (if \<not> isMountedRef s then s
      else
        let s1 = s\<lparr>manualControlRef := True\<rparr>
        in if isPlaying s then s1\<lparr>engine_playing := False, isPlaying := False\<rparr>
           else s1\<lparr>engine_playing := True, isPlaying := True\<rparr>)"

definition handleScreenPress :: "player \<Rightarrow> player" where
  "handleScreenPress s =
     (if \<not> isMountedRef s then s
      else
        let newShowControls = \<not> showControls s;
            s1 = s\<lparr>showControls := newShowControls\<rparr>;
            s2 = (if truthy_handle (controlsTimeoutRef s1)
                  then (clearTimeout (the (controlsTimeoutRef s1)) s1)
                         \<lparr>controlsTimeoutRef := None\<rparr>
                  else s1)
        in if newShowControls
           then (let (h, s3) = setTimeout s2 in s3\<lparr>controlsTimeoutRef := Some h\<rparr>)
           else s2\<lparr>manualControlRef := False\<rparr>)"

text \<open>The callback handed to \<^verbatim>\<open>setTimeout\<close> in \<^verbatim>\<open>handleScreenPress\<close>.\<close>

definition timeout_callback :: "player \<Rightarrow> player" where
  "timeout_callback s =
     (if isMountedRef s then s\<lparr>showControls := False, manualControlRef := False\<rparr> else s)"

text \<open>The cleanup of the mount effect (lines 198 to 204).\<close>

definition unmount_cleanup :: "player \<Rightarrow> player" where
  "unmount_cleanup s =
     (if truthy_handle (controlsTimeoutRef s)
      then clearTimeout (the (controlsTimeoutRef s)) s
      else s)"

definition handleViewSensitiveContent :: "player \<Rightarrow> player" where
  "handleViewSensitiveContent s = s\<lparr>playSensitive := True\<rparr>"

text \<open>
  The timeline handlers end with a call of the prop \<^verbatim>\<open>onTimelineControlled\<close>. Calling
  \<^verbatim>\<open>undefined\<close> throws a \<^verbatim>\<open>TypeError\<close>, after the statements before the call have run.
  Each handler returns the state and either the error or the call that was made; the
  state updates made before the throw stay made.
\<close>

definition call_prop :: "callback option \<Rightarrow> bool \<Rightarrow> error + (callback \<times> bool)" where
  "call_prop f b = (case f of None \<Rightarrow> Inl TypeError | Some cb \<Rightarrow> Inr (cb, b))"

definition OnTimelineTouchStart :: "player \<Rightarrow> player \<times> (error + (callback \<times> bool))" where
  "OnTimelineTouchStart s =
     (s\<lparr>showControls := False, showDurationControl := True,
        engine_playing := False, isPlaying := False\<rparr>,
      call_prop (onTimelineControlled (cur_props s)) True)"

text \<open>
  \<^verbatim>\<open>onTimelineTouchMove\<close> assigns the position and previews the frame with
  \<^verbatim>\<open>player.play(); player.pause()\<close>. The value assigned is the one the component
  computes; what the engine does with a value outside the media is not part of the
  model.
\<close>

text \<open>The window width \<^verbatim>\<open>SCREEN_WIDTH\<close> of a device is positive.\<close>

definition onTimelineTouchMove :: "env \<Rightarrow> rat \<Rightarrow> player \<Rightarrow> player" where
  "onTimelineTouchMove e pageX s =
     s\<lparr>currentTime := duration s * pageX / SCREEN_WIDTH e, engine_playing := False\<rparr>"

definition OnTimelineTouchEnd :: "player \<Rightarrow> player \<times> (error + (callback \<times> bool))" where
  "OnTimelineTouchEnd s =
     (s\<lparr>showDurationControl := False, engine_playing := True, isPlaying := True\<rparr>,
      call_prop (onTimelineControlled (cur_props s)) False)"

subsection \<open>Events\<close>

text \<open>
  What can happen to a mounted item: the parent renders it with new props, the user
  presses one of the controls that the current render shows, a pending timer fires, the
  item is unmounted.
\<close>

datatype event =
    Render props
  | PressLike
  | PressBookmark
  | ScreenPress
  | PressPlayPause
  | PressWatchAnyway
  | TimelineTouchStart
  | TimelineTouchMove rat
  | TimelineTouchEnd
  | TimerFire nat
  | Unmount

text \<open>
  The early return at line 210 renders only the warning overlay while the item is
  gated; the other controls exist only in the full render.
\<close>

definition gated :: "env \<Rightarrow> player \<Rightarrow> bool" where
  "gated e s = (is_sensitive (the_item e) \<and> \<not> playSensitive s)"

fun enabled :: "env \<Rightarrow> event \<Rightarrow> player \<Rightarrow> bool" where
  "enabled e (Render p) s = mounted s"
| "enabled e PressLike s = (mounted s \<and> \<not> gated e s \<and> \<not> showDurationControl s)"
| "enabled e PressBookmark s = (mounted s \<and> \<not> gated e s \<and> \<not> showDurationControl s)"
| "enabled e ScreenPress s = (mounted s \<and> \<not> gated e s \<and> \<not> showControls s)"
| "enabled e PressPlayPause s = (mounted s \<and> \<not> gated e s \<and> showControls s)"
| "enabled e PressWatchAnyway s = (mounted s \<and> gated e s)"
| "enabled e TimelineTouchStart s = (mounted s \<and> \<not> gated e s)"
| "enabled e (TimelineTouchMove x) s = (mounted s \<and> \<not> gated e s)"
| "enabled e TimelineTouchEnd s = (mounted s \<and> \<not> gated e s)"
| "enabled e (TimerFire h) s = (h \<in> timers s)"
| "enabled e Unmount s = mounted s"

text \<open>The handler of an event, before the render it causes.\<close>

fun handle :: "env \<Rightarrow> event \<Rightarrow> player \<Rightarrow> player" where
  "handle e (Render p) s = s\<lparr>cur_props := p\<rparr>"
| "handle e PressLike s = fst (handleLike e s)"
| "handle e PressBookmark s = fst (handleBookmark e s)"
| "handle e ScreenPress s = handleScreenPress s"
| "handle e PressPlayPause s = togglePlayPause s"
| "handle e PressWatchAnyway s = handleViewSensitiveContent s"
| "handle e TimelineTouchStart s = fst (OnTimelineTouchStart s)"
| "handle e (TimelineTouchMove x) s = onTimelineTouchMove e x s"
| "handle e TimelineTouchEnd s = fst (OnTimelineTouchEnd s)"
| "handle e (TimerFire h) s = timeout_callback (clearTimeout h s)"
| "handle e Unmount s = (unmount_cleanup s)\<lparr>mounted := False\<rparr>"

text \<open>
  One step: an event that the current render does not offer changes nothing; after
  unmounting nothing renders any more.
\<close>

definition step :: "env \<Rightarrow> event \<Rightarrow> player \<Rightarrow> player" where
  "step e ev s =
     (if \<not> enabled e ev s then s
      else let s' = handle e ev s
           in if mounted s' then rerender e s s' else s')"

fun run :: "env \<Rightarrow> player \<Rightarrow> event list \<Rightarrow> player" where
  "run e s [] = s"
| "run e s (ev # evs) = run e (step e ev s) evs"

section \<open>The feed screens\<close>

text \<open>
  \<^verbatim>\<open>LoopsFeed\<close> (\<^verbatim>\<open>app/(tabs)/index.tsx\<close>) and \<^verbatim>\<open>ProfileFeed\<close> own the active-item
  pointer \<^verbatim>\<open>currentIndex\<close>. The record holds the state and ref cells of the screen, the
  scroll offset of its list, what the query layer exposes (\<^verbatim>\<open>hasNextPage\<close>,
  \<^verbatim>\<open>isFetching\<close>, \<^verbatim>\<open>isFetchingNextPage\<close>), and a log of the requests the screen hands to its
  collaborators: calls of \<^verbatim>\<open>refetch\<close>, of \<^verbatim>\<open>fetchNextPage\<close> and of
  \<^verbatim>\<open>recordImpression\<close>. What the query library does with a request is outside the
  repository and outside the model, and so are the configuration and preference
  queries and the playback-rate map, which never write the pointer.
\<close>

datatype tab = Following | Local | ForYou

record video =
  video_id :: nat
  media_duration :: "rat option"

text \<open>A \<^verbatim>\<open>ViewToken\<close> of the list; its \<^verbatim>\<open>index\<close> may be \<^verbatim>\<open>null\<close>.\<close>

record view_token =
  index :: "nat option"

record feed =
  activeTab :: tab
  currentIndex :: nat
  selectedVideo :: "nat option"
  showComments :: bool
  showShare :: bool
  showOther :: bool
  screenFocusedState :: bool
  timelineIsControlled :: bool
  videos :: "video list"
  currentVideoRef :: "video option"
  watchStartTimeRef :: "int option"
  scrollOffset :: rat
  hasNextPage :: bool
  isFetching :: bool
  isFetchingNextPage :: bool
  refetchCalls :: nat
  fetchNextPageCalls :: nat
  impressions :: "(nat \<times> number \<times> bool) list"

text \<open>\<^verbatim>\<open>recordVideoImpression\<close> (lines 107 to 123); \<^verbatim>\<open>video.media.duration || 0\<close>.\<close>

text \<open>The literal \<^verbatim>\<open>0.9\<close> is the double nearest to nine tenths.\<close>

definition recordVideoImpression :: "video \<Rightarrow> number \<Rightarrow> feed \<Rightarrow> feed" where
  "recordVideoImpression v watched f =
     (if activeTab f \<noteq> ForYou then f
      else if js_lt watched (Num 1) then f
      else
        let videoDuration = (case media_duration v of None \<Rightarrow> 0 | Some d \<Rightarrow> d);
            completed = (videoDuration > 0 \<and>
                         js_ge watched (js_mul (Num videoDuration) (fl (9 / 10))))
        in f\<lparr>impressions := impressions f @ [(video_id v, watched, completed)]\<rparr>)"

text \<open>
  The guard \<^verbatim>\<open>currentVideoRef.current && watchStartTimeRef.current\<close> and the call it
  protects, shared by the viewability callback and the blur cleanup; \<open>now\<close> is what
  \<^verbatim>\<open>Date.now()\<close> reads.
\<close>

definition flush_impression :: "int \<Rightarrow> feed \<Rightarrow> feed" where
  "flush_impression now f =
     (case (currentVideoRef f, watchStartTimeRef f) of
        (Some v, Some t) \<Rightarrow>
          (if t \<noteq> 0
           then recordVideoImpression v (js_div (Num (of_int (now - t))) (Num 1000)) f
           else f)
      | _ \<Rightarrow> f)"

text \<open>\<^verbatim>\<open>onViewableItemsChanged\<close> of \<^verbatim>\<open>LoopsFeed\<close> (lines 172 to 189).\<close>

definition onViewableItemsChanged :: "int \<Rightarrow> view_token list \<Rightarrow> feed \<Rightarrow> feed" where
  "onViewableItemsChanged now viewableItems f =
     (case viewableItems of
        [] \<Rightarrow> f
      | tok # rest \<Rightarrow>
          let newIndex = (case index tok of None \<Rightarrow> 0 | Some i \<Rightarrow> i);
              newVideo = (if newIndex < length (videos f)
                          then Some (videos f ! newIndex) else None);
              f1 = flush_impression now f
          in f1\<lparr>currentIndex := newIndex, currentVideoRef := newVideo,
                 watchStartTimeRef := Some now\<rparr>)"

text \<open>\<^verbatim>\<open>onViewableItemsChanged\<close> of \<^verbatim>\<open>ProfileFeed\<close> (lines 109 to 113).\<close>

definition profile_onViewableItemsChanged :: "view_token list \<Rightarrow> feed \<Rightarrow> feed" where
  "profile_onViewableItemsChanged viewableItems f =
     (case viewableItems of
        [] \<Rightarrow> f
      | tok # rest \<Rightarrow> f\<lparr>currentIndex := (case index tok of None \<Rightarrow> 0 | Some i \<Rightarrow> i)\<rparr>)"

text \<open>The \<^verbatim>\<open>onPress\<close> of a tab (lines 344 to 348, 364 to 368, 382 to 386).\<close>

definition tabPress :: "tab \<Rightarrow> feed \<Rightarrow> feed" where
  "tabPress t f = f\<lparr>activeTab := t, currentIndex := 0, scrollOffset := 0\<rparr>"

text \<open>
  A change of \<^verbatim>\<open>activeTab\<close> gives \<^verbatim>\<open>recordVideoImpression\<close> a new identity, so the
  render after it runs two cleanups, each with the callback of the old tab: that of the
  effect at lines 191 to 198, and that of the focus effect (lines 200 to 212), whose
  body then runs again and sets \<^verbatim>\<open>screenFocused\<close>.
\<close>

definition tab_change_cleanups :: "int \<Rightarrow> feed \<Rightarrow> feed" where
  "tab_change_cleanups now f =
     (flush_impression now (flush_impression now f))\<lparr>screenFocusedState := True\<rparr>"

text \<open>\<^verbatim>\<open>onRefresh\<close> (lines 305 to 308) and \<^verbatim>\<open>handleEndReached\<close> (lines 310 to 314).\<close>


definition onRefresh :: "feed \<Rightarrow> feed" where
  "onRefresh f = f\<lparr>scrollOffset := 0, refetchCalls := refetchCalls f + 1\<rparr>"

definition handleEndReached :: "feed \<Rightarrow> feed" where
  "handleEndReached f =
     (if hasNextPage f \<and> \<not> isFetchingNextPage f
      then f\<lparr>fetchNextPageCalls := fetchNextPageCalls f + 1\<rparr>
      else f)"

definition handleComment :: "nat \<Rightarrow> feed \<Rightarrow> feed" where
  "handleComment v f = f\<lparr>selectedVideo := Some v, showComments := True\<rparr>"

definition handleShare :: "nat \<Rightarrow> feed \<Rightarrow> feed" where
  "handleShare v f = f\<lparr>selectedVideo := Some v, showShare := True\<rparr>"

definition handleOther :: "nat \<Rightarrow> feed \<Rightarrow> feed" where
  "handleOther v f = f\<lparr>selectedVideo := Some v, showOther := True\<rparr>"

definition handleNavigate :: "feed \<Rightarrow> feed" where
  "handleNavigate f = f\<lparr>showComments := False, showShare := False, showOther := False\<rparr>"

text \<open>The focus effect (lines 200 to 212): its body on focus, its cleanup on blur.\<close>

definition focus_gained :: "feed \<Rightarrow> feed" where
  "focus_gained f = f\<lparr>screenFocusedState := True\<rparr>"

definition focus_lost :: "int \<Rightarrow> feed \<Rightarrow> feed" where
  "focus_lost now f = flush_impression now (f\<lparr>screenFocusedState := False\<rparr>)"

text \<open>A call of a callback that the screen owns.\<close>

fun apply_callback :: "callback \<Rightarrow> bool \<Rightarrow> feed \<Rightarrow> feed" where
  "apply_callback SetTimelineIsControlled b f = f\<lparr>timelineIsControlled := b\<rparr>"

text \<open>
  What reaches the screen from a timeline handler of a child: the call it made, or
  nothing when the handler threw before making one.
\<close>

definition deliver :: "error + (callback \<times> bool) \<Rightarrow> feed \<Rightarrow> feed" where
  "deliver r f = (case r of Inl err \<Rightarrow> f | Inr (cb, b) \<Rightarrow> apply_callback cb b f)"

text \<open>The list prop \<^verbatim>\<open>scrollEnabled={!timelineIsControlled}\<close>.\<close>

definition scrollEnabled :: "feed \<Rightarrow> bool" where
  "scrollEnabled f = (\<not> timelineIsControlled f)"

text \<open>
  The props \<^verbatim>\<open>renderItem\<close> gives the player at row \<open>i\<close> showing the item with
  identifier \<open>vid\<close> (lines 269 to 288, and lines 157 to 174 of \<^verbatim>\<open>ProfileFeed\<close>). Both
  screens pass their setter under the name \<^verbatim>\<open>onTimelineControlledChanged\<close>; neither
  passes a prop named \<^verbatim>\<open>onTimelineControlled\<close>.
\<close>

definition renderItem :: "feed \<Rightarrow> nat \<Rightarrow> nat \<Rightarrow> props" where
  "renderItem f i vid =
     \<lparr>isActive = (i = currentIndex f),
      commentsOpen = (showComments f \<and> selectedVideo f = Some vid),
      shareOpen = (showShare f \<and> selectedVideo f = Some vid),
      otherOpen = (showOther f \<and> selectedVideo f = Some vid),
      screenFocused = screenFocusedState f,
      onTimelineControlled = None,
      onTimelineControlledChanged = Some SetTimelineIsControlled\<rparr>"

text \<open>
  The last event is the query layer reporting new values of \<^verbatim>\<open>hasNextPage\<close>,
  \<^verbatim>\<open>isFetching\<close> and \<^verbatim>\<open>isFetchingNextPage\<close>.
\<close>

datatype feed_event =
    ViewableItemsChanged int "view_token list"
  | TabPress int tab
  | PullRefresh
  | EndReached
  | OpenComments nat
  | OpenShare nat
  | OpenOther nat
  | CloseComments
  | CloseShare
  | CloseOther
  | Navigate
  | FocusGained
  | FocusLost int
  | QueryState bool bool bool

fun feed_step :: "feed_event \<Rightarrow> feed \<Rightarrow> feed" where
  "feed_step (ViewableItemsChanged now toks) f = onViewableItemsChanged now toks f"
| "feed_step (TabPress now t) f =
     (if t = activeTab f then tabPress t f else tabPress t (tab_change_cleanups now f))"
| "feed_step PullRefresh f = onRefresh f"
| "feed_step EndReached f = handleEndReached f"
| "feed_step (OpenComments v) f = handleComment v f"
| "feed_step (OpenShare v) f = handleShare v f"
| "feed_step (OpenOther v) f = handleOther v f"
| "feed_step CloseComments f = f\<lparr>showComments := False\<rparr>"
| "feed_step CloseShare f = f\<lparr>showShare := False\<rparr>"
| "feed_step CloseOther f = f\<lparr>showOther := False\<rparr>"
| "feed_step Navigate f = handleNavigate f"
| "feed_step FocusGained f = focus_gained f"
| "feed_step (FocusLost now) f = focus_lost now f"
| "feed_step (QueryState hasNext fetching fetchingNext) f =
     f\<lparr>hasNextPage := hasNext, isFetching := fetching,
       isFetchingNextPage := fetchingNext\<rparr>"

fun feed_run :: "feed \<Rightarrow> feed_event list \<Rightarrow> feed" where
  "feed_run f [] = f"
| "feed_run f (ev # evs) = feed_run (feed_step ev f) evs"

section \<open>Notions the properties speak about\<close>

subsection \<open>Acknowledgement of a sensitive item along a run\<close>

text \<open>
  An item becomes inactive at an event when the parent renders it with
  \<^verbatim>\<open>isActive\<close> false while it was true. Along a run of events, the first function
  below tells whether the viewer pressed the acknowledgement button since the item last
  became inactive (or since it was mounted).
\<close>

fun becomes_inactive :: "event \<Rightarrow> player \<Rightarrow> bool" where
  "becomes_inactive (Render p) s = (mounted s \<and> isActive (cur_props s) \<and> \<not> isActive p)"
| "becomes_inactive ev s = False"

definition ack_since_step :: "env \<Rightarrow> event \<Rightarrow> player \<Rightarrow> bool \<Rightarrow> bool" where
  "ack_since_step e ev s g =
     (if ev = PressWatchAnyway \<and> enabled e ev s then True
      else if becomes_inactive ev s then False
      else g)"

fun acked_since_inactive :: "env \<Rightarrow> player \<Rightarrow> bool \<Rightarrow> event list \<Rightarrow> bool" where
  "acked_since_inactive e s g [] = g"
| "acked_since_inactive e s g (ev # evs) =
     acked_since_inactive e (step e ev s) (ack_since_step e ev s g) evs"

text \<open>
  The second function follows the words \<open>during that same activation\<close>: an
  acknowledgement counts when the button is pressed while the item is active, and every
  change of \<^verbatim>\<open>isActive\<close> starts afresh.
\<close>

fun changes_activity :: "event \<Rightarrow> player \<Rightarrow> bool" where
  "changes_activity (Render p) s = (mounted s \<and> isActive (cur_props s) \<noteq> isActive p)"
| "changes_activity ev s = False"

definition ack_during_step :: "env \<Rightarrow> event \<Rightarrow> player \<Rightarrow> bool \<Rightarrow> bool" where
  "ack_during_step e ev s g =
     (if ev = PressWatchAnyway \<and> enabled e ev s \<and> isActive (cur_props s) then True
      else if changes_activity ev s then False
      else g)"

fun acked_during_activation :: "env \<Rightarrow> player \<Rightarrow> bool \<Rightarrow> event list \<Rightarrow> bool" where
  "acked_during_activation e s g [] = g"
| "acked_during_activation e s g (ev # evs) =
     acked_during_activation e (step e ev s) (ack_during_step e ev s g) evs"

subsection \<open>Automatic events\<close>

text \<open>
  An automatic event on an item that stays active: a render by the parent that changes
  the focus or the modal props and keeps \<^verbatim>\<open>isActive\<close> true.
\<close>

fun automatic :: "event \<Rightarrow> bool" where
  "automatic (Render p) = isActive p"
| "automatic ev = False"

subsection \<open>Rows reported visible\<close>

text \<open>
  \<open>first_index\<close> is what both screens compute, \<^verbatim>\<open>viewableItems[0].index || 0\<close>;
  \<open>lowest_index\<close> is the lowest index among the rows of a report; \<open>ascending\<close> says
  that a report lists its rows in increasing order of index.
\<close>

definition index_or_0 :: "view_token \<Rightarrow> nat" where
  "index_or_0 tok = (case index tok of None \<Rightarrow> 0 | Some i \<Rightarrow> i)"

definition first_index :: "view_token list \<Rightarrow> nat" where
  "first_index toks = index_or_0 (hd toks)"

definition lowest_index :: "view_token list \<Rightarrow> nat" where
  "lowest_index toks = Min (set (map index_or_0 toks))"

definition ascending :: "view_token list \<Rightarrow> bool" where
  "ascending toks = sorted (map index_or_0 toks)"

fun writes_pointer :: "feed_event \<Rightarrow> bool" where
  "writes_pointer (ViewableItemsChanged now toks) = True"
| "writes_pointer (TabPress now t) = True"
| "writes_pointer ev = False"

subsection \<open>An invariant of the player\<close>

text \<open>
  The mount flag is set, and a sensitive item plays only while its acknowledgement flag
  is set.
\<close>

definition safe :: "env \<Rightarrow> player \<Rightarrow> bool" where
  "safe e s =
     (isMountedRef s \<and>
      (is_sensitive (the_item e) \<and> (isPlaying s \<or> engine_playing s) \<longrightarrow> playSensitive s))"

subsection \<open>An invariant of the auto-hide timer\<close>

text \<open>
  The only handle that can be pending is the one the ref cell holds; handles are
  positive; nothing is pending once the item is unmounted.
\<close>

definition timers_ok :: "player \<Rightarrow> bool" where
  "timers_ok s =
     (timers s \<subseteq> set_option (controlsTimeoutRef s) \<and> 0 \<notin> timers s \<and> nextTimer s \<noteq> 0 \<and>
      (\<not> mounted s \<longrightarrow> timers s = {}))"

subsection \<open>Example inputs\<close>

definition sensitive_env :: env where
  "sensitive_env =
     \<lparr>the_item = \<lparr>item_id = 7, is_sensitive = True, has_liked = False,
                   has_bookmarked = False, likes = 10, bookmarks = 2\<rparr>,
      SCREEN_WIDTH = 400\<rparr>"

definition liked_env :: env where
  "liked_env =
     \<lparr>the_item = \<lparr>item_id = 8, is_sensitive = False, has_liked = True,
                   has_bookmarked = True, likes = 10, bookmarks = 2\<rparr>,
      SCREEN_WIDTH = 400\<rparr>"

definition active_props :: props where
  "active_props =
     \<lparr>isActive = True, commentsOpen = False, shareOpen = False, otherOpen = False,
      screenFocused = True, onTimelineControlled = None,
      onTimelineControlledChanged = Some SetTimelineIsControlled\<rparr>"

definition inactive_props :: props where
  "inactive_props = active_props\<lparr>isActive := False\<rparr>"

definition blurred_props :: props where
  "blurred_props = active_props\<lparr>screenFocused := False\<rparr>"

definition comments_props :: props where
  "comments_props = active_props\<lparr>commentsOpen := True\<rparr>"

definition example_feed :: feed where
  "example_feed =
     \<lparr>activeTab = Local, currentIndex = 5, selectedVideo = None, showComments = False,
      showShare = False, showOther = False, screenFocusedState = True,
      timelineIsControlled = False, videos = [], currentVideoRef = None,
      watchStartTimeRef = None, scrollOffset = 4000, hasNextPage = False,
      isFetching = False, isFetchingNextPage = False, refetchCalls = 0,
      fetchNextPageCalls = 0, impressions = []\<rparr>"

section \<open>Properties of the formatting utilities\<close>

text \<open>
  C10. For every input timestamp that lies at or after the reference time (a future or
  equal date), \<^verbatim>\<open>timeAgo\<close> returns \<^verbatim>\<open>"now"\<close>: the elapsed seconds are clamped to zero
  before any bucketing, so a future date never yields a seconds, minutes, hours or
  month-day string.
\<close>

theorem timeAgo_future_is_now:
  assumes "ref_time clock now \<le> d"
  shows "timeAgo cal clock d now = ''now''"
proof -
  have "(ref_time clock now - d) div 1000 \<le> 0"
    using assms by linarith
  then have s0: "max 0 ((ref_time clock now - d) div 1000) = 0"
    by simp
  show ?thesis
    unfolding timeAgo_def Let_def s0 by simp
qed

theorem timeAgo_future_is_now_witness:
  "ref_time 5000 (Some (Millis 1000)) \<le> 61000 \<and>
   timeAgo \<lparr>getMonth = (\<lambda>t. 0), getDate = (\<lambda>t. 1), getFullYear = (\<lambda>t. 1970)\<rparr>
     5000 61000 (Some (Millis 1000)) = ''now''"
proof -
  have h: "ref_time 5000 (Some (Millis 1000)) \<le> 61000"
    by (simp add: ref_time_def)
  show ?thesis
    using h timeAgo_future_is_now [OF h] by simp
qed

section \<open>Properties of the video player item\<close>

subsection \<open>What the effects and a render leave alone\<close>

lemma ppe_frame [simp]:
  "cur_props (play_pause_effect e s) = cur_props s"
  "mounted (play_pause_effect e s) = mounted s"
  "isMountedRef (play_pause_effect e s) = isMountedRef s"
  "timers (play_pause_effect e s) = timers s"
  "controlsTimeoutRef (play_pause_effect e s) = controlsTimeoutRef s"
  "nextTimer (play_pause_effect e s) = nextTimer s"
  "isLiked (play_pause_effect e s) = isLiked s"
  "isBookmarked (play_pause_effect e s) = isBookmarked s"
  "showControls (play_pause_effect e s) = showControls s"
  "showDurationControl (play_pause_effect e s) = showDurationControl s"
  "duration (play_pause_effect e s) = duration s"
  "playSensitive (play_pause_effect e s) = playSensitive s"
  "manualControlRef (play_pause_effect e s) = manualControlRef s"
  by (simp_all add: play_pause_effect_def Let_def)

lemma ppe_isPlaying:
  "isPlaying (play_pause_effect e s) =
     (if manualControlRef s \<or> \<not> isMountedRef s then isPlaying s else shouldPlay e s)"
  "engine_playing (play_pause_effect e s) =
     (if manualControlRef s \<or> \<not> isMountedRef s then engine_playing s else shouldPlay e s)"
  by (auto simp add: play_pause_effect_def Let_def)

lemma reset_frame [simp]:
  "cur_props (reset_effect s) = cur_props s"
  "mounted (reset_effect s) = mounted s"
  "isMountedRef (reset_effect s) = isMountedRef s"
  "timers (reset_effect s) = timers s"
  "controlsTimeoutRef (reset_effect s) = controlsTimeoutRef s"
  "nextTimer (reset_effect s) = nextTimer s"
  "isLiked (reset_effect s) = isLiked s"
  "isBookmarked (reset_effect s) = isBookmarked s"
  "showControls (reset_effect s) = showControls s"
  "showDurationControl (reset_effect s) = showDurationControl s"
  "duration (reset_effect s) = duration s"
  "isPlaying (reset_effect s) = isPlaying s"
  "engine_playing (reset_effect s) = engine_playing s"
  by (simp_all add: reset_effect_def)

lemma reset_flags:
  "playSensitive (reset_effect s) = (isActive (cur_props s) \<and> playSensitive s)"
  "manualControlRef (reset_effect s) = (isActive (cur_props s) \<and> manualControlRef s)"
  by (simp_all add: reset_effect_def)

lemma commit_frame [simp]:
  "cur_props (commit e old s) = cur_props s"
  "mounted (commit e old s) = mounted s"
  "isMountedRef (commit e old s) = isMountedRef s"
  "timers (commit e old s) = timers s"
  "controlsTimeoutRef (commit e old s) = controlsTimeoutRef s"
  "nextTimer (commit e old s) = nextTimer s"
  "isLiked (commit e old s) = isLiked s"
  "isBookmarked (commit e old s) = isBookmarked s"
  "showControls (commit e old s) = showControls s"
  "showDurationControl (commit e old s) = showDurationControl s"
  "duration (commit e old s) = duration s"
  by (simp_all add: commit_def Let_def)

lemma commit_flags:
  "playSensitive (commit e old s) =
     (playSensitive s \<and> (isActive (cur_props s) \<or> \<not> isActive (cur_props old)))"
  "manualControlRef (commit e old s) =
     (manualControlRef s \<and> (isActive (cur_props s) \<or> \<not> isActive (cur_props old)))"
  by (auto simp add: commit_def Let_def reset_flags)

lemma commit_isPlaying:
  "isPlaying (commit e old s) =
     (if play_pause_deps e s \<noteq> play_pause_deps e old \<and> \<not> manualControlRef s \<and> isMountedRef s
      then shouldPlay e s else isPlaying s)"
  "engine_playing (commit e old s) =
     (if play_pause_deps e s \<noteq> play_pause_deps e old \<and> \<not> manualControlRef s \<and> isMountedRef s
      then shouldPlay e s else engine_playing s)"
  by (auto simp add: commit_def Let_def ppe_isPlaying)

lemma rerender_frame [simp]:
  "cur_props (rerender e old s) = cur_props s"
  "mounted (rerender e old s) = mounted s"
  "isMountedRef (rerender e old s) = isMountedRef s"
  "timers (rerender e old s) = timers s"
  "controlsTimeoutRef (rerender e old s) = controlsTimeoutRef s"
  "nextTimer (rerender e old s) = nextTimer s"
  "isLiked (rerender e old s) = isLiked s"
  "isBookmarked (rerender e old s) = isBookmarked s"
  "showControls (rerender e old s) = showControls s"
  "showDurationControl (rerender e old s) = showDurationControl s"
  "duration (rerender e old s) = duration s"
  by (simp_all add: rerender_def Let_def)

lemma rerender_flags:
  "playSensitive (rerender e old s) =
     (playSensitive s \<and> (isActive (cur_props s) \<or> \<not> isActive (cur_props old)))"
  "manualControlRef (rerender e old s) =
     (manualControlRef s \<and> (isActive (cur_props s) \<or> \<not> isActive (cur_props old)))"
  by (auto simp add: rerender_def Let_def commit_flags)

text \<open>A third commit would find every dependency unchanged and run no effect.\<close>

lemma commit_same_deps:
  assumes "play_pause_deps e s' = play_pause_deps e s"
    and "isActive (cur_props s') = isActive (cur_props s)"
  shows "commit e s s' = s'"
  using assms by (simp add: commit_def)

lemma rerender_stable: "commit e (commit e old s) (rerender e old s) = rerender e old s"
  by (rule commit_same_deps)
    (auto simp add: rerender_def Let_def play_pause_deps_def commit_flags)

lemma commit_safe: "safe e s \<Longrightarrow> isActive (cur_props s) \<or> \<not> isActive (cur_props old) \<Longrightarrow> safe e (commit e old s)"
  by (auto simp add: safe_def commit_isPlaying commit_flags shouldPlay_def)

lemma rerender_safe: "safe e s \<Longrightarrow> safe e (rerender e old s)"
  by (auto simp add: safe_def rerender_def Let_def commit_isPlaying commit_flags shouldPlay_def play_pause_deps_def)

lemmas handler_defs = handleLike_def handleBookmark_def togglePlayPause_def handleScreenPress_def
  timeout_callback_def unmount_cleanup_def handleViewSensitiveContent_def OnTimelineTouchStart_def
  onTimelineTouchMove_def OnTimelineTouchEnd_def setTimeout_def clearTimeout_def

lemma handle_safe: "safe e s \<Longrightarrow> enabled e ev s \<Longrightarrow> safe e (handle e ev s)"
  by (cases ev) (auto simp add: safe_def handler_defs gated_def Let_def)

lemma step_safe: "safe e s \<Longrightarrow> safe e (step e ev s)"
  by (simp add: step_def Let_def handle_safe rerender_safe)

lemma run_safe: "safe e s \<Longrightarrow> safe e (run e s evs)"
  by (induction evs arbitrary: s) (simp_all add: step_safe)

lemma initial_safe: "safe e (initial e p d)"
  by (simp add: safe_def initial_def)

lemma mount_safe: "safe e (mount e p d)"
proof -
  have 1: "safe e (play_pause_effect e (initial e p d))"
    by (simp add: safe_def ppe_isPlaying shouldPlay_def initial_def)
  have 2: "safe e (reset_effect (play_pause_effect e (initial e p d)))"
    using 1 by (auto simp add: safe_def reset_flags initial_def ppe_isPlaying shouldPlay_def)
  show ?thesis
    unfolding mount_def Let_def by (rule commit_safe) (simp_all add: 2)
qed

lemma handle_playSensitive:
  "enabled e ev s \<Longrightarrow> playSensitive (handle e ev s) = (ev = PressWatchAnyway \<or> playSensitive s)"
  by (cases ev) (auto simp add: handler_defs Let_def split: prod.splits)

lemma handle_isActive:
  "isActive (cur_props (handle e ev s)) = (case ev of Render p \<Rightarrow> isActive p | _ \<Rightarrow> isActive (cur_props s))"
  by (cases ev) (auto simp add: handler_defs Let_def split: prod.splits)

lemma handle_mounted:
  "enabled e ev s \<Longrightarrow> mounted (handle e ev s) = (ev \<noteq> Unmount \<and> mounted s)"
  by (cases ev) (auto simp add: handler_defs Let_def split: prod.splits)

lemma step_playSensitive:
  "playSensitive (step e ev s) = ack_since_step e ev s (playSensitive s)"
  by (cases ev) (auto simp add: step_def Let_def rerender_flags handler_defs ack_since_step_def gated_def split: prod.splits)

lemma run_playSensitive:
  "playSensitive (run e s evs) = acked_since_inactive e s (playSensitive s) evs"
  by (induction evs arbitrary: s) (simp_all add: step_playSensitive)

lemma mount_playSensitive: "\<not> playSensitive (mount e p d)"
  by (simp add: mount_def Let_def commit_flags reset_flags initial_def)

subsection \<open>The sensitive-content gate\<close>

text \<open>
  The warning overlay and its button are rendered whenever the item is sensitive and
  unacknowledged, whether or not the item is the active one. A viewer who presses the
  button on an item that is not yet active sets the flag, and the item plays as soon as
  it becomes active: no acknowledgement happens during that activation.
\<close>

theorem sensitive_ack_before_activation_counterexample:
  "is_sensitive (the_item sensitive_env) \<and>
   isActive (cur_props (run sensitive_env (mount sensitive_env inactive_props 10)
       [PressWatchAnyway, Render active_props])) \<and>
   isPlaying (run sensitive_env (mount sensitive_env inactive_props 10)
       [PressWatchAnyway, Render active_props]) \<and>
   \<not> acked_during_activation sensitive_env (mount sensitive_env inactive_props 10) False
       [PressWatchAnyway, Render active_props]"
  by code_simp

text \<open>
  C1 (amended). For every feed item flagged sensitive and every sequence of events from
  mounting on, the item is playing (the \<^verbatim>\<open>isPlaying\<close> cell or the engine) only if the
  acknowledgement button was pressed since the item last became inactive; and whenever
  the item becomes inactive the acknowledgement flag is reset to false, so the item is
  gated again.
\<close>

theorem sensitive_plays_only_acknowledged:
  assumes "is_sensitive (the_item e)"
  shows "(isPlaying (run e (mount e p d) evs) \<or> engine_playing (run e (mount e p d) evs)
            \<longrightarrow> acked_since_inactive e (mount e p d) False evs)
       \<and> (becomes_inactive ev s \<longrightarrow> \<not> playSensitive (step e ev s) \<and> gated e (step e ev s))"
proof -
  let ?s = "run e (mount e p d) evs"
  have "safe e ?s" by (rule run_safe) (rule mount_safe)
  then have "isPlaying ?s \<or> engine_playing ?s \<longrightarrow> playSensitive ?s"
    using assms by (simp add: safe_def)
  moreover have "playSensitive ?s = acked_since_inactive e (mount e p d) False evs"
    using run_playSensitive [of e "mount e p d" evs] mount_playSensitive [of e p d] by simp
  moreover have "becomes_inactive ev s \<longrightarrow> \<not> playSensitive (step e ev s)"
    by (cases ev) (simp_all add: step_playSensitive ack_since_step_def)
  ultimately show ?thesis using assms by (simp add: gated_def)
qed

theorem sensitive_plays_only_acknowledged_witness:
  "is_sensitive (the_item sensitive_env) \<and>
   isPlaying (run sensitive_env (mount sensitive_env active_props 10) [PressWatchAnyway]) \<and>
   acked_since_inactive sensitive_env (mount sensitive_env active_props 10) False
     [PressWatchAnyway] \<and>
   becomes_inactive (Render inactive_props)
     (run sensitive_env (mount sensitive_env active_props 10) [PressWatchAnyway]) \<and>
   \<not> playSensitive (step sensitive_env (Render inactive_props)
     (run sensitive_env (mount sensitive_env active_props 10) [PressWatchAnyway]))"
proof -
  have h: "is_sensitive (the_item sensitive_env)" by code_simp
  have p: "isPlaying (run sensitive_env (mount sensitive_env active_props 10) [PressWatchAnyway])"
    by code_simp
  have b: "becomes_inactive (Render inactive_props)
     (run sensitive_env (mount sensitive_env active_props 10) [PressWatchAnyway])"
    by code_simp
  show ?thesis
    using h p b
      sensitive_plays_only_acknowledged [OF h, of active_props 10 "[PressWatchAnyway]"
        "Render inactive_props"
        "run sensitive_env (mount sensitive_env active_props 10) [PressWatchAnyway]"]
    by blast
qed

lemma rerender_manual_keeps:
  assumes "manualControlRef s" "isActive (cur_props s)"
  shows "isPlaying (rerender e old s) = isPlaying s"
    and "engine_playing (rerender e old s) = engine_playing s"
    and "manualControlRef (rerender e old s)"
  using assms by (simp_all add: rerender_def Let_def commit_isPlaying commit_flags)

lemma step_manual_automatic:
  assumes "manualControlRef s" "automatic ev"
  shows "isPlaying (step e ev s) = isPlaying s \<and> engine_playing (step e ev s) = engine_playing s \<and>
         manualControlRef (step e ev s)"
  using assms by (cases ev) (simp_all add: step_def Let_def rerender_manual_keeps)

lemma run_manual_automatic:
  assumes "manualControlRef s" "list_all automatic evs"
  shows "isPlaying (run e s evs) = isPlaying s \<and> engine_playing (run e s evs) = engine_playing s \<and>
         manualControlRef (run e s evs)"
  using assms
proof (induction evs arbitrary: s)
  case Nil
  then show ?case by simp
next
  case (Cons ev evs)
  from Cons.prems have a: "automatic ev" and r: "list_all automatic evs" by simp_all
  note st = step_manual_automatic [OF Cons.prems(1) a, of e]
  from st have m: "manualControlRef (step e ev s)" by simp
  show ?case using Cons.IH [OF m r] st by simp
qed

lemma handle_manual:
  assumes "enabled e ev s" "manualControlRef s" "\<not> manualControlRef (handle e ev s)"
  shows "\<exists>h. ev = TimerFire h \<and> h \<in> timers s"
  using assms by (cases ev) (auto simp add: handler_defs Let_def split: prod.splits if_splits)

lemma step_manual_cleared:
  assumes "manualControlRef s" "\<not> manualControlRef (step e ev s)"
  shows "becomes_inactive ev s \<or> (\<exists>h. ev = TimerFire h \<and> h \<in> timers s)"
proof -
  have en: "enabled e ev s" using assms by (auto simp add: step_def split: if_splits)
  show ?thesis
  proof (cases "manualControlRef (handle e ev s)")
    case False
    then show ?thesis using handle_manual [OF en assms(1)] by simp
  next
    case True
    with assms(2) en have m: "mounted (handle e ev s)"
      and r: "\<not> manualControlRef (rerender e s (handle e ev s))"
      by (auto simp add: step_def Let_def split: if_splits)
    from r True have a: "isActive (cur_props s)"
      and "\<not> isActive (cur_props (handle e ev s))"
      by (simp_all add: rerender_flags)
    then have "\<not> (case ev of Render p \<Rightarrow> isActive p | _ \<Rightarrow> isActive (cur_props s))"
      by (simp add: handle_isActive)
    then show ?thesis using en a
      by (cases ev) simp_all
  qed
qed

lemma step_toggle:
  assumes "enabled e PressPlayPause s" "isMountedRef s"
  shows "manualControlRef (step e PressPlayPause s)"
    and "isPlaying (step e PressPlayPause s) = (\<not> isPlaying s)"
  using assms
  by (auto simp add: step_def Let_def togglePlayPause_def rerender_def commit_isPlaying commit_flags
      play_pause_deps_def)

lemma run_isMountedRef: "isMountedRef (run e (mount e p d) evs)"
  using run_safe [OF mount_safe, of e p d evs] by (simp add: safe_def)

subsection \<open>Manual control\<close>

text \<open>
  The callback of the auto-hide timer clears the manual-control flag while the item is
  still active. After it has run, a change of focus pauses and resumes the item again,
  overriding the pause the viewer chose.
\<close>

theorem manual_pause_overridden_counterexample:
  "\<not> isPlaying (run liked_env (mount liked_env active_props 10) [ScreenPress, PressPlayPause]) \<and>
   manualControlRef (run liked_env (mount liked_env active_props 10) [ScreenPress, PressPlayPause]) \<and>
   isActive blurred_props \<and> isActive active_props \<and>
   \<not> manualControlRef (run liked_env (mount liked_env active_props 10)
       [ScreenPress, PressPlayPause, TimerFire 1]) \<and>
   isPlaying (run liked_env (mount liked_env active_props 10)
       [ScreenPress, PressPlayPause, TimerFire 1, Render blurred_props, Render active_props])"
  by code_simp

text \<open>
  C2 (amended). Once the viewer has toggled play/pause on an item, the manual-control
  flag is set, and for every sequence of automatic events (renders that change focus or
  modal props and keep the item active) the play/pause state stays what the viewer chose
  and the flag stays set. The flag is cleared only by the item becoming inactive or by
  the controls' auto-hide timer firing.
\<close>

theorem manual_control_suppresses_automatic:
  assumes "s0 = run e (mount e p d) pre" and "enabled e PressPlayPause s0"
    and "s = step e PressPlayPause s0"
  shows "isPlaying s = (\<not> isPlaying s0) \<and> manualControlRef s \<and>
         (list_all automatic evs \<longrightarrow>
            isPlaying (run e s evs) = isPlaying s \<and>
            engine_playing (run e s evs) = engine_playing s \<and>
            manualControlRef (run e s evs)) \<and>
         (\<not> manualControlRef (step e ev s) \<longrightarrow>
            becomes_inactive ev s \<or> (\<exists>h. ev = TimerFire h \<and> h \<in> timers s))"
proof -
  have mr: "isMountedRef s0" using assms(1) run_isMountedRef by simp
  have m: "manualControlRef s" and t: "isPlaying s = (\<not> isPlaying s0)"
    using step_toggle [OF assms(2) mr] assms(3) by simp_all
  show ?thesis
    using m t run_manual_automatic [OF m, of evs e] step_manual_cleared [OF m, of e ev]
    by blast
qed

theorem manual_control_suppresses_automatic_witness:
  "enabled liked_env PressPlayPause (run liked_env (mount liked_env active_props 10) [ScreenPress]) \<and>
   list_all automatic [Render blurred_props, Render comments_props] \<and>
   \<not> isPlaying (run liked_env
      (step liked_env PressPlayPause (run liked_env (mount liked_env active_props 10) [ScreenPress]))
      [Render blurred_props, Render comments_props]) \<and>
   \<not> manualControlRef (step liked_env (TimerFire 1)
      (step liked_env PressPlayPause (run liked_env (mount liked_env active_props 10) [ScreenPress])))"
proof -
  let ?s0 = "run liked_env (mount liked_env active_props 10) [ScreenPress]"
  have en: "enabled liked_env PressPlayPause ?s0" by code_simp
  have au: "list_all automatic [Render blurred_props, Render comments_props]" by code_simp
  have pl: "isPlaying ?s0" by code_simp
  have cl: "\<not> manualControlRef (step liked_env (TimerFire 1) (step liked_env PressPlayPause ?s0))"
    by code_simp
  show ?thesis
    using en au pl cl
      manual_control_suppresses_automatic [OF refl en refl, of "[Render blurred_props, Render comments_props]" "TimerFire 1"]
    by simp
qed


subsection \<open>Automatic pause\<close>







subsection \<open>The auto-hide timer and unmounting\<close>

lemma handle_timers_ok: "timers_ok s \<Longrightarrow> enabled e ev s \<Longrightarrow> timers_ok (handle e ev s)"
  by (cases ev) (auto simp add: timers_ok_def handler_defs Let_def split: prod.splits option.splits)

lemma rerender_timers_ok: "timers_ok (rerender e old s) = timers_ok s"
  by (simp add: timers_ok_def)

lemma step_timers_ok: "timers_ok s \<Longrightarrow> timers_ok (step e ev s)"
  by (simp add: step_def Let_def handle_timers_ok rerender_timers_ok)

lemma run_timers_ok: "timers_ok s \<Longrightarrow> timers_ok (run e s evs)"
  by (induction evs arbitrary: s) (simp_all add: step_timers_ok)

lemma mount_timers_ok: "timers_ok (mount e p d)"
  by (simp add: timers_ok_def mount_def Let_def initial_def)

lemma step_dead: "\<not> mounted s \<Longrightarrow> timers s = {} \<Longrightarrow> step e ev s = s"
  by (cases ev) (simp_all add: step_def)

lemma run_dead: "\<not> mounted s \<Longrightarrow> timers s = {} \<Longrightarrow> run e s evs = s"
  by (induction evs) (simp_all add: step_dead)

text \<open>
  C9. For every player item with a pending controls auto-hide timer, unmounting the item
  cancels the timer: no handle is pending afterwards, so the timer callback never runs,
  and no later event changes the state of the unmounted item. The cleanup is a test of
  the ref cell and a call of \<^verbatim>\<open>clearTimeout\<close>; it has no failing branch.
\<close>

theorem unmount_cancels_timer:
  assumes "s = run e (mount e p d) evs" and "mounted s"
    and "controlsTimeoutRef s = Some h" and "h \<in> timers s"
  shows "h \<notin> timers (step e Unmount s) \<and> timers (step e Unmount s) = {} \<and>
         \<not> mounted (step e Unmount s) \<and>
         run e (step e Unmount s) evs' = step e Unmount s"
proof -
  let ?u = "step e Unmount s"
  have "timers_ok s" using assms(1) run_timers_ok [OF mount_timers_ok] by simp
  then have ok: "timers_ok ?u" by (rule step_timers_ok)
  have nm: "\<not> mounted ?u" using assms(2) by (simp add: step_def)
  with ok have em: "timers ?u = {}" by (simp add: timers_ok_def)
  show ?thesis using nm em run_dead [OF nm em] by simp
qed

theorem unmount_cancels_timer_witness:
  "mounted (run liked_env (mount liked_env active_props 10) [ScreenPress]) \<and>
   controlsTimeoutRef (run liked_env (mount liked_env active_props 10) [ScreenPress]) = Some 1 \<and>
   1 \<in> timers (run liked_env (mount liked_env active_props 10) [ScreenPress]) \<and>
   timers (step liked_env Unmount (run liked_env (mount liked_env active_props 10) [ScreenPress])) = {} \<and>
   run liked_env (step liked_env Unmount (run liked_env (mount liked_env active_props 10) [ScreenPress]))
     [TimerFire 1, ScreenPress] =
   step liked_env Unmount (run liked_env (mount liked_env active_props 10) [ScreenPress])"
proof -
  let ?s = "run liked_env (mount liked_env active_props 10) [ScreenPress]"
  have m: "mounted ?s" by code_simp
  have c: "controlsTimeoutRef ?s = Some 1" by code_simp
  have t: "1 \<in> timers ?s" by code_simp
  show ?thesis
    using m c t unmount_cancels_timer [OF refl m c t, of "[TimerFire 1, ScreenPress]"] by simp
qed

subsection \<open>Optimistic counters\<close>

text \<open>
  C7. The local flag toggles on each tap, and nothing that happens to the network
  mutation writes it. The rendered counter adds one when the local flag is on and the
  original flag was off, and has no case that subtracts: for an item the viewer had
  liked (10 likes) and bookmarked (2 bookmarks), one tap turns the flag off and the
  counter still shows 10, respectively 2, where a delta of -1 would give 9 and 1.
\<close>

theorem unlike_keeps_counter:
  "has_liked (the_item liked_env) \<and> likes (the_item liked_env) = 10 \<and>
   isLiked (mount liked_env active_props 10) \<and>
   \<not> isLiked (step liked_env PressLike (mount liked_env active_props 10)) \<and>
   likes_text liked_env (step liked_env PressLike (mount liked_env active_props 10)) = 10 \<and>
   has_bookmarked (the_item liked_env) \<and> bookmarks (the_item liked_env) = 2 \<and>
   \<not> isBookmarked (step liked_env PressBookmark (mount liked_env active_props 10)) \<and>
   bookmarks_text liked_env (step liked_env PressBookmark (mount liked_env active_props 10)) = 2"
  by code_simp

subsection \<open>Timeline scrubbing\<close>

text \<open>
  C4. With the props that \<^verbatim>\<open>renderItem\<close> of either screen passes, the prop
  \<^verbatim>\<open>onTimelineControlled\<close> is \<^verbatim>\<open>undefined\<close>: the handlers of gesture start and
  gesture end pause and resume playback and then throw a \<^verbatim>\<open>TypeError\<close> at the call of
  the prop. No signal reaches the screen, and the list stays scrollable during the
  scrub.
\<close>

theorem scrub_signal_is_never_emitted:
  "snd (OnTimelineTouchStart (s\<lparr>cur_props := renderItem f i vid\<rparr>)) = Inl TypeError \<and>
   \<not> isPlaying (fst (OnTimelineTouchStart (s\<lparr>cur_props := renderItem f i vid\<rparr>))) \<and>
   snd (OnTimelineTouchEnd (s\<lparr>cur_props := renderItem f i vid\<rparr>)) = Inl TypeError \<and>
   isPlaying (fst (OnTimelineTouchEnd (s\<lparr>cur_props := renderItem f i vid\<rparr>))) \<and>
   deliver (snd (OnTimelineTouchStart (s\<lparr>cur_props := renderItem f i vid\<rparr>))) f = f \<and>
   scrollEnabled (deliver (snd (OnTimelineTouchStart (s\<lparr>cur_props := renderItem f i vid\<rparr>))) f)
     = scrollEnabled f"
  by (simp add: OnTimelineTouchStart_def OnTimelineTouchEnd_def renderItem_def call_prop_def
      deliver_def)

section \<open>Properties of the feed screens\<close>

lemma first_index_lowest:
  assumes "toks \<noteq> []" and "ascending toks"
  shows "first_index toks = lowest_index toks"
proof -
  obtain t ts where toks: "toks = t # ts"
    using assms(1) by (cases toks) auto
  have "\<forall>x \<in> set (map index_or_0 ts). index_or_0 t \<le> x"
    using assms(2) by (simp add: ascending_def toks)
  then have "Min (insert (index_or_0 t) (set (map index_or_0 ts))) = index_or_0 t"
    by (intro Min_eqI) auto
  then show ?thesis
    by (simp add: first_index_def lowest_index_def toks)
qed

lemma flush_currentIndex: "currentIndex (flush_impression now f) = currentIndex f"
  by (simp add: flush_impression_def recordVideoImpression_def Let_def split: option.splits)

lemma viewable_currentIndex:
  "toks \<noteq> [] \<Longrightarrow> currentIndex (onViewableItemsChanged now toks f) = first_index toks"
  by (cases toks)
    (simp_all add: onViewableItemsChanged_def first_index_def index_or_0_def Let_def)

lemma profile_viewable_currentIndex:
  "toks \<noteq> [] \<Longrightarrow> currentIndex (profile_onViewableItemsChanged toks f) = first_index toks"
  by (cases toks)
    (simp_all add: profile_onViewableItemsChanged_def first_index_def index_or_0_def)

lemma other_events_keep_pointer:
  "\<not> writes_pointer ev \<Longrightarrow> currentIndex (feed_step ev f) = currentIndex f"
  by (cases ev)
    (simp_all add: onRefresh_def handleEndReached_def handleComment_def handleShare_def
      handleOther_def handleNavigate_def focus_gained_def focus_lost_def flush_currentIndex)

lemma feed_run_append: "feed_run f (xs @ ys) = feed_run (feed_run f xs) ys"
  by (induction xs arbitrary: f) auto

lemma refresh_n_times:
  "refetchCalls (feed_run f (replicate n PullRefresh)) = refetchCalls f + n \<and>
   currentIndex (feed_run f (replicate n PullRefresh)) = currentIndex f"
  by (induction n arbitrary: f) (simp_all add: onRefresh_def)

subsection \<open>The active-item pointer\<close>

text \<open>
  Both screens take the first row of the report. A report that lists row 3 before
  row 1 sets the pointer to 3, not to the lowest index 1.
\<close>

theorem pointer_not_lowest_counterexample:
  "currentIndex (feed_step (ViewableItemsChanged 0 [\<lparr>index = Some 3\<rparr>, \<lparr>index = Some 1\<rparr>])
      example_feed) = 3 \<and>
   lowest_index [\<lparr>index = Some 3\<rparr>, \<lparr>index = Some 1\<rparr>] = 1"
  by (simp add: example_feed_def onViewableItemsChanged_def flush_impression_def
      lowest_index_def index_or_0_def)

text \<open>
  C5 (amended). For every sequence of events on a feed screen, after each
  visibility-callback event that reports a non-empty list of rows the active-item
  pointer equals the index of the first row of that list (0 when that index is null), on
  both screens; this is the lowest index reported whenever the list is in ascending
  order of index. Of all other events only a tab press writes the pointer.
\<close>

theorem pointer_is_first_reported_row:
  assumes "toks \<noteq> []"
  shows "currentIndex (feed_run f (evs @ [ViewableItemsChanged now toks])) = first_index toks \<and>
         currentIndex (profile_onViewableItemsChanged toks f) = first_index toks \<and>
         (ascending toks \<longrightarrow> first_index toks = lowest_index toks) \<and>
         (\<not> writes_pointer ev \<longrightarrow> currentIndex (feed_step ev f) = currentIndex f)"
  using assms
  by (simp add: feed_run_append viewable_currentIndex profile_viewable_currentIndex
      first_index_lowest other_events_keep_pointer)

theorem pointer_is_first_reported_row_witness:
  "[\<lparr>index = Some 1\<rparr>, \<lparr>index = Some 2\<rparr>] \<noteq> [] \<and>
   ascending [\<lparr>index = Some 1\<rparr>, \<lparr>index = Some 2\<rparr>] \<and>
   \<not> writes_pointer PullRefresh \<and>
   currentIndex (feed_run example_feed
      [OpenComments 4, ViewableItemsChanged 99 [\<lparr>index = Some 1\<rparr>, \<lparr>index = Some 2\<rparr>]]) = 1 \<and>
   lowest_index [\<lparr>index = Some 1\<rparr>, \<lparr>index = Some 2\<rparr>] = 1 \<and>
   currentIndex (feed_step PullRefresh example_feed) = currentIndex example_feed"
proof -
  let ?toks = "[\<lparr>index = Some 1\<rparr>, \<lparr>index = Some (2::nat)\<rparr>]"
  have ne: "?toks \<noteq> []" by simp
  have asc: "ascending ?toks" by (simp add: ascending_def index_or_0_def)
  have fi: "first_index ?toks = 1" by (simp add: first_index_def index_or_0_def)
  show ?thesis
    using ne asc fi
      pointer_is_first_reported_row [OF ne, of example_feed "[OpenComments 4]" 99 PullRefresh]
    by simp
qed

subsection \<open>Refresh\<close>


section \<open>Properties of prettyCount\<close>

text \<open>
  The model agrees with the source where exact arithmetic would not: 1.005 times 100 is
  100.49999999999999 in doubles and rounds down, 4.35 times 100 is 434.99999999999994
  and floors to 434.
\<close>

lemma prettyCount_en_US_examples:
  "prettyCount en_US_host (Num 13245) None = Inr ''13K''"
  "prettyCount en_US_host (Num 999) None = Inr ''999''"
  "prettyCount en_US_host (Num 1235000) (Some \<lparr>precision = Some 1, rounding = None\<rparr>)
     = Inr ''1.2M''"
  "prettyCount en_US_host (Num 15250) (Some \<lparr>precision = Some 1, rounding = None\<rparr>)
     = Inr ''15.3K''"
  "prettyCount en_US_host (Num 1005) (Some \<lparr>precision = Some 2, rounding = None\<rparr>)
     = Inr ''1.00K''"
  "prettyCount en_US_host (Num 4350) (Some \<lparr>precision = Some 2, rounding = Some Floor\<rparr>)
     = Inr ''4.34K''"
  "prettyCount en_US_host (Num 999999) None = Inr ''1M''"
  "prettyCount en_US_host (Num (- 1500)) None = Inr ''-2K''"
  "prettyCount en_US_host (Num 7) (Some \<lparr>precision = Some 101, rounding = None\<rparr>)
     = Inl RangeError"
  "prettyCount en_US_host NaN None = Inr ''0''"
  by code_simp+

lemma fl_examples:
  "fl (9 / 10) = Num (8106479329266893 / 9007199254740992)"
  "js_mul (Num 13) (fl (9 / 10)) = Num (6586514455029351 / 562949953421312)"
  "js_div (Num 11700) (Num 1000) = Num (3293257227514675 / 281474976710656)"
  "js_mul (js_div (Num 1005) (Num 1000)) (Num 100) = Num (7072058789855231 / 70368744177664)"
  by code_simp+

lemma scale_1235000:
  "snd (scale_loop (Num 1235000) 0) = 2"
  "rounder Round (js_mul (fst (scale_loop (Num 1235000) 0)) (Num 1)) = Num 1"
  by code_simp+

lemma scale_5e15:
  "snd (scale_loop (Num 5000000000000000) 0) = 4"
  "rounder Round (js_mul (fst (scale_loop (Num 5000000000000000) 0)) (Num 1)) = Num 5000"
  by code_simp+

lemma js_div_by_1:
  "js_div (Num 1) (Num 1) = Num 1"
  "js_div (Num 5000) (Num 1) = Num 5000"
  by code_simp+

text \<open>
  C8. With default options the precision is 0: 1235000 is scaled to 1.235, which
  \<^verbatim>\<open>Math.round\<close> takes to 1, and the result is \<^verbatim>\<open>"1M"\<close> on every host that computes
  ten to the power 0 as 1 and renders 1 without fraction digits as \<^verbatim>\<open>"1"\<close>; the
  docstring's \<^verbatim>\<open>"1.2M"\<close> is the result with precision 1. At the last unit a scaled
  value of 1000 or more is printed as 1: 5000000000000000 gives \<^verbatim>\<open>"1T"\<close>.
\<close>

theorem prettyCount_default_options:
  assumes "Math_pow10 h 0 = Num 1" and "toLocaleString h (Num 1) 0 = Inr ''1''"
  shows "prettyCount h (Num 1235000) None = Inr ''1M'' \<and>
         prettyCount h (Num 5000000000000000) None = Inr ''1T''"
proof -
  have p: "opt_precision None = 0" and m: "opt_rounding None = Round"
    by (simp_all add: opt_precision_def opt_rounding_def)
  have a: "prettyCount h (Num 1235000) None = Inr ''1M''"
    using assms
    by (simp add: prettyCount_def Let_def split_beta p m scale_1235000 js_div_by_1 units_def)
  have b: "prettyCount h (Num 5000000000000000) None = Inr ''1T''"
    using assms
    by (simp add: prettyCount_def Let_def split_beta p m scale_5e15 js_div_by_1 units_def)
  from a b show ?thesis by (rule conjI)
qed

theorem prettyCount_default_options_witness:
  "Math_pow10 en_US_host 0 = Num 1 \<and>
   toLocaleString en_US_host (Num 1) 0 = Inr ''1'' \<and>
   prettyCount en_US_host (Num 1235000) None = Inr ''1M'' \<and>
   prettyCount en_US_host (Num 5000000000000000) None = Inr ''1T''"
proof -
  have pw: "Math_pow10 en_US_host 0 = Num 1" by code_simp
  have tl: "toLocaleString en_US_host (Num 1) 0 = Inr ''1''" by code_simp
  note th = prettyCount_default_options [OF pw tl]
  from th have a: "prettyCount en_US_host (Num 1235000) None = Inr ''1M''"
    by (rule conjunct1)
  from th have b: "prettyCount en_US_host (Num 5000000000000000) None = Inr ''1T''"
    by (rule conjunct2)
  show ?thesis
    by (intro conjI pw tl a b)
qed

end
